theory Spec2Isabelle
  imports Complex_Main "HOL-Library.AList" "HOL-Library.Char_ord" "HOL-Library.List_Lexorder"
begin

section \<open>Aspect accuracy audit: normalizer, loaders, metric calculator, driver\<close>

text \<open>
  A shallow embedding of \<^verbatim>\<open>Data/rre_accuracy_audit.py\<close>.

  Conventions of the model.
  \<^item> A Python \<^verbatim>\<open>str\<close> is a \<^typ>\<open>string\<close> of ASCII characters. \<^verbatim>\<open>str.lower\<close> and
    \<^verbatim>\<open>str.strip\<close> are modelled on ASCII: characters outside ASCII are left alone by
    \<open>py_lower\<close> and never count as whitespace.
  \<^item> A Python \<^verbatim>\<open>float\<close> is modelled by the exact rational number it approximates
    (\<^typ>\<open>rat\<close>); rounding of the binary representation is outside the model.
  \<^item> A Python \<^verbatim>\<open>int\<close> is an \<^typ>\<open>int\<close>.
  \<^item> A \<^verbatim>\<open>dict\<close> (here a \<^verbatim>\<open>defaultdict(list)\<close>) is an association list in insertion
    order; assigning to a key that is present keeps its position, as in Python.
  \<^item> An exception is a value \<open>Inl e\<close> of a sum type.
\<close>

subsection \<open>String primitives\<close>

text \<open>The ASCII characters for which \<^verbatim>\<open>str.isspace\<close> holds: tab, line feed, vertical tab,
  form feed, carriage return, the four separators 0x1C..0x1F, and space.\<close>

definition whitespace :: "char list" where
  "whitespace = [CHR 0x09, CHR 0x0A, CHR 0x0B, CHR 0x0C, CHR 0x0D,
                 CHR 0x1C, CHR 0x1D, CHR 0x1E, CHR 0x1F, CHR '' '']"

definition lower_char :: "char \<Rightarrow> char" where
  "lower_char c =
    (case map_of (zip ''ABCDEFGHIJKLMNOPQRSTUVWXYZ'' ''abcdefghijklmnopqrstuvwxyz'') c of
       Some l \<Rightarrow> l
     | None \<Rightarrow> c)"

text \<open>\<^verbatim>\<open>s.lower()\<close>\<close>

definition py_lower :: "string \<Rightarrow> string" where
  "py_lower s = map lower_char s"

text \<open>\<^verbatim>\<open>s.strip(cs)\<close>: every leading and every trailing character that is in \<open>cs\<close> is removed.\<close>

definition py_strip_chars :: "char list \<Rightarrow> string \<Rightarrow> string" where
  "py_strip_chars cs s =
    rev (dropWhile (\<lambda>c. c \<in> set cs) (rev (dropWhile (\<lambda>c. c \<in> set cs) s)))"

text \<open>\<^verbatim>\<open>s.strip()\<close>\<close>

definition py_strip :: "string \<Rightarrow> string" where
  "py_strip s = py_strip_chars whitespace s"

text \<open>\<^verbatim>\<open>s.split(c)\<close> for a one-character separator: the pieces between the occurrences of
  \<open>c\<close>; there is always at least one piece (\<^verbatim>\<open>''.split(',') == ['']\<close>).\<close>

fun py_split :: "char \<Rightarrow> string \<Rightarrow> string list" where
  "py_split c [] = [[]]"
| "py_split c (x # xs) =
    (if x = c then [] # py_split c xs
     else (case py_split c xs of
             p # ps \<Rightarrow> (x # p) # ps
           | [] \<Rightarrow> [[x]]))"

text \<open>\<^verbatim>\<open>sep.join(xs)\<close>\<close>

fun py_join :: "string \<Rightarrow> string list \<Rightarrow> string" where
  "py_join sep [] = []"
| "py_join sep [x] = x"
| "py_join sep (x # y # ys) = x @ sep @ py_join sep (y # ys)"

subsection \<open>Aspect normalizer\<close>

text \<open>The synonym table of \<^verbatim>\<open>normalize_aspect_name\<close>, in the order of the source.\<close>

definition mapping :: "(string \<times> string) list" where
  "mapping =
    [(''material/ quality'', ''Material/Quality''),
     (''material/quality'', ''Material/Quality''),
     (''sizing/fit'', ''Sizing/Fit''),
     (''fit/sizing'', ''Sizing/Fit''),
     (''comfort'', ''Comfort''),
     (''style'', ''Color/Aesthetics''),
     (''color/aesthetics'', ''Color/Aesthetics''),
     (''durability'', ''Durability''),
     (''shipping/packaging'', ''Shipping/Packaging''),
     (''instruction/ ux'', ''Instructions/UX''),
     (''instructions/ux'', ''Instructions/UX''),
     (''value/price'', ''Value/Price'')]"

definition normalize_aspect_name :: "string \<Rightarrow> string" where
  "normalize_aspect_name aspect0 =
    (let aspect = py_strip aspect0;
         aspect_lower = py_lower aspect
     in case map_of mapping aspect_lower of
          Some v \<Rightarrow> v
        | None \<Rightarrow> aspect)"

subsection \<open>Source loaders\<close>

text \<open>The mapping \<^verbatim>\<open>review_id -> [aspect, ...]\<close> both loaders return.\<close>

type_synonym reviews = "(string \<times> string list) list"

text \<open>\<^verbatim>\<open>d.get(k, [])\<close>\<close>

definition get_aspects :: "reviews \<Rightarrow> string \<Rightarrow> string list" where
  "get_aspects d k = (case map_of d k of Some v \<Rightarrow> v | None \<Rightarrow> [])"

text \<open>
  \<^verbatim>\<open>load_rita_aspects\<close>. The file is read through \<^verbatim>\<open>csv.DictReader\<close>, a library that is
  not modelled: the loader is given the rows the reader yields, each as the pair of its
  \<^verbatim>\<open>Review_ID\<close> and \<^verbatim>\<open>Rita_Aspect\<close> fields. \<open>rita_row\<close> is the body of the loop.
\<close>

definition rita_row :: "reviews \<Rightarrow> string \<times> string \<Rightarrow> reviews" where
  "rita_row reviews row =
    (let review_id = fst row;
         aspects_str = snd row;
         aspects = map normalize_aspect_name (py_split CHR '','' aspects_str);
         aspects = filter (\<lambda>a. a \<noteq> []) aspects
     in AList.update review_id aspects reviews)"

definition load_rita_aspects :: "(string \<times> string) list \<Rightarrow> reviews" where
  "load_rita_aspects rows = fold (\<lambda>row reviews. rita_row reviews row) rows []"

text \<open>
  \<^verbatim>\<open>load_gemini_aspects\<close>. The loader is given the result of \<^verbatim>\<open>f.readlines()\<close>, the lines
  of the file, each with its line terminator. \<open>gemini_fields\<close> is the first half of the
  loop body (the line is cleaned and split; \<open>None\<close> is the \<^verbatim>\<open>continue\<close>), \<open>gemini_line\<close>
  the whole body.
\<close>

definition gemini_fields :: "string \<Rightarrow> (string \<times> string) option" where
  "gemini_fields line0 =
    (let line = py_strip_chars [CHR 0x22] (py_strip line0);
         parts = py_split CHR '','' line
     in if length parts < 2 then None
        else Some (py_strip (parts ! 0), py_strip (parts ! 1)))"

definition gemini_line :: "reviews \<Rightarrow> string \<Rightarrow> reviews" where
  "gemini_line reviews line0 =
    (case gemini_fields line0 of
       None \<Rightarrow> reviews
     | Some (review_id, aspect) \<Rightarrow>
         (let aspect_normalized = normalize_aspect_name aspect
          in if aspect_normalized \<noteq> []
             then AList.update review_id (get_aspects reviews review_id @ [aspect_normalized]) reviews
             else reviews))"

definition load_gemini_aspects :: "string list \<Rightarrow> reviews" where
  "load_gemini_aspects lines = fold (\<lambda>line reviews. gemini_line reviews line) (drop 1 lines) []"

text \<open>The list one row of the reference file assigns to its review, and the entry one line
  of the candidate file appends (\<open>None\<close> when the line adds nothing): two names for parts
  of the loop bodies above, used to state what the loaders compute.\<close>

abbreviation rita_aspects_of :: "string \<Rightarrow> string list" where
  "rita_aspects_of aspects_str \<equiv>
     filter (\<lambda>a. a \<noteq> []) (map normalize_aspect_name (py_split CHR '','' aspects_str))"

definition gemini_entry :: "string \<Rightarrow> (string \<times> string) option" where
  "gemini_entry line0 =
    (case gemini_fields line0 of
       None \<Rightarrow> None
     | Some (review_id, aspect) \<Rightarrow>
         (if normalize_aspect_name aspect \<noteq> []
          then Some (review_id, normalize_aspect_name aspect) else None))"

text \<open>
  The line transformation as the specification words it (section 4.3), for comparison
  with \<open>gemini_fields\<close>: trailing whitespace is stripped, then one leading and one trailing
  quote character, then the line is split on commas, column 0 being the review
  identifier and column 1 the raw aspect.
\<close>

definition py_rstrip :: "string \<Rightarrow> string" where
  "py_rstrip s = rev (dropWhile (\<lambda>c. c \<in> set whitespace) (rev s))"

definition strip_one_quote_layer :: "string \<Rightarrow> string" where
  "strip_one_quote_layer s =
    (let s1 = (if s \<noteq> [] \<and> hd s = CHR 0x22 then tl s else s)
     in if s1 \<noteq> [] \<and> last s1 = CHR 0x22 then butlast s1 else s1)"

definition spec_gemini_fields :: "string \<Rightarrow> (string \<times> string) option" where
  "spec_gemini_fields line0 =
    (let line = strip_one_quote_layer (py_rstrip line0);
         parts = py_split CHR '','' line
     in if length parts < 2 then None else Some (parts ! 0, parts ! 1))"

subsection \<open>Metric calculator\<close>

datatype py_error = ZeroDivisionError

text \<open>\<^verbatim>\<open>a / b\<close> on two ints, and on two floats.\<close>

definition int_truediv :: "int \<Rightarrow> int \<Rightarrow> py_error + rat" where
  "int_truediv a b = (if b = 0 then Inl ZeroDivisionError else Inr (of_int a / of_int b))"

definition float_truediv :: "rat \<Rightarrow> rat \<Rightarrow> py_error + rat" where
  "float_truediv a b = (if b = 0 then Inl ZeroDivisionError else Inr (a / b))"

record metric_result =
  recall :: rat
  precision :: rat
  f1 :: rat
  tp :: int
  fn :: int
  fp :: int
  details :: string

text \<open>The detail text of the general case.\<close>

definition details_str :: "string set \<Rightarrow> string set \<Rightarrow> string" where
  "details_str rita_set gemini_set =
    (let matches = rita_set \<inter> gemini_set;
         fn = int (card (rita_set - gemini_set));
         fp = int (card (gemini_set - rita_set));
         details =
           (if matches \<noteq> {} then [''Matched: '' @ py_join '', '' (sorted_list_of_set matches)] else []) @
           (if fn > 0 then [''Missed: '' @ py_join '', '' (sorted_list_of_set (rita_set - gemini_set))] else []) @
           (if fp > 0 then [''Extra: '' @ py_join '', '' (sorted_list_of_set (gemini_set - rita_set))] else [])
     in if details \<noteq> [] then py_join '' | '' details else ''Perfect match'')"

definition calculate_metrics :: "string list \<Rightarrow> string list \<Rightarrow> py_error + metric_result" where
  "calculate_metrics rita_aspects gemini_aspects =
    (if rita_aspects = [] \<and> gemini_aspects = [] then
       Inr \<lparr>recall = 1, precision = 1, f1 = 1, tp = 0, fn = 0, fp = 0, details = ''Both empty''\<rparr>
     else if rita_aspects = [] then
       Inr \<lparr>recall = 0, precision = 0, f1 = 0, tp = 0, fn = 0,
            fp = int (length gemini_aspects), details = ''Rita has no aspects''\<rparr>
     else if gemini_aspects = [] then
       Inr \<lparr>recall = 0, precision = 0, f1 = 0, tp = 0, fn = int (length rita_aspects),
            fp = 0, details = ''Gemini found no aspects''\<rparr>
     else
       (let rita_set = set (map py_lower rita_aspects);
            gemini_set = set (map py_lower gemini_aspects);
            matches = rita_set \<inter> gemini_set;
            tp = int (card matches);
            fn = int (card (rita_set - gemini_set));
            fp = int (card (gemini_set - rita_set))
        in case (if int (card rita_set) > 0 then int_truediv tp (int (card rita_set)) else Inr 0) of
             Inl e \<Rightarrow> Inl e
           | Inr recall_v \<Rightarrow>
        (case (if int (card gemini_set) > 0 then int_truediv tp (int (card gemini_set)) else Inr 0) of
             Inl e \<Rightarrow> Inl e
           | Inr precision_v \<Rightarrow>
        (case (if recall_v + precision_v > 0
               then float_truediv (2 * (recall_v * precision_v)) (recall_v + precision_v)
               else Inr 0) of
             Inl e \<Rightarrow> Inl e
           | Inr f1_v \<Rightarrow>
               Inr \<lparr>recall = recall_v, precision = precision_v, f1 = f1_v, tp = tp, fn = fn, fp = fp,
                    details = details_str rita_set gemini_set\<rparr>))))"

subsection \<open>Audit driver\<close>

text \<open>
  The text \<^verbatim>\<open>f"{x:.3f}"\<close> is represented by the number of thousandths it spells (the text
  \<^verbatim>\<open>0.667\<close> by 667): \<open>format_3f\<close> rounds to the nearest thousandth, ties to the even
  one, \<open>float_of_3f\<close> is what \<^verbatim>\<open>float()\<close> reads back from the text, and \<open>render_3f\<close> is the
  text itself, as it is written to the output file.
\<close>

type_synonym fixed3 = int

definition round_half_even :: "rat \<Rightarrow> int" where
  "round_half_even x =
    (let f = \<lfloor>x\<rfloor>; d = x - of_int f
     in if d < 1 / 2 then f
        else if d > 1 / 2 then f + 1
        else if even f then f else f + 1)"

definition format_3f :: "rat \<Rightarrow> fixed3" where
  "format_3f x = round_half_even (x * 1000)"

definition float_of_3f :: "fixed3 \<Rightarrow> rat" where
  "float_of_3f k = of_int k / 1000"

definition digit_char :: "nat \<Rightarrow> char" where
  "digit_char d = ''0123456789'' ! (d mod 10)"

text \<open>\<^verbatim>\<open>str(n)\<close> on an int.\<close>

fun str_nat :: "nat \<Rightarrow> string" where
  "str_nat n = (if n < 10 then [digit_char n] else str_nat (n div 10) @ [digit_char (n mod 10)])"

definition str_int :: "int \<Rightarrow> string" where
  "str_int i = (if i < 0 then ''-'' @ str_nat (nat (- i)) else str_nat (nat i))"

definition render_3f :: "fixed3 \<Rightarrow> string" where
  "render_3f k =
    (let a = nat \<bar>k\<bar>
     in (if k < 0 then ''-'' else []) @ str_nat (a div 1000) @ ''.'' @
        [digit_char (a div 100), digit_char (a div 10), digit_char a])"

text \<open>One entry of \<^verbatim>\<open>results\<close>: a dict whose keys are, in insertion order, the fields below.\<close>

record result_row =
  Review_ID :: string
  Rita_Aspects :: string
  Rita_Count :: int
  Gemini_Aspects :: string
  Gemini_Count :: int
  True_Positives :: int
  False_Negatives :: int
  False_Positives :: int
  Recall :: fixed3
  Precision :: fixed3
  F1_Score :: fixed3
  Details :: string

text \<open>\<^verbatim>\<open>results[0].keys()\<close>, the header row of the output file.\<close>

definition fieldnames :: "string list" where
  "fieldnames =
    [''Review_ID'', ''Rita_Aspects'', ''Rita_Count'', ''Gemini_Aspects'', ''Gemini_Count'',
     ''True_Positives'', ''False_Negatives'', ''False_Positives'', ''Recall'', ''Precision'',
     ''F1_Score'', ''Details'']"

text \<open>The cells \<^verbatim>\<open>csv.DictWriter\<close> is given for one row, in the order of \<open>fieldnames\<close>. The
  quoting the \<^verbatim>\<open>csv\<close> library applies when it serialises a cell is not modelled.\<close>

definition row_cells :: "result_row \<Rightarrow> string list" where
  "row_cells r =
    [Review_ID r, Rita_Aspects r, str_int (Rita_Count r), Gemini_Aspects r,
     str_int (Gemini_Count r), str_int (True_Positives r), str_int (False_Negatives r),
     str_int (False_Positives r), render_3f (Recall r), render_3f (Precision r),
     render_3f (F1_Score r), Details r]"

text \<open>The accumulators of the main loop.\<close>

record audit_acc =
  results :: "result_row list"
  total_recall :: rat
  total_precision :: rat
  total_f1 :: rat
  total_tp :: int
  total_fn :: int
  total_fp :: int

text \<open>The body of the loop over \<^verbatim>\<open>all_reviews\<close>.\<close>

definition audit_review :: "reviews \<Rightarrow> reviews \<Rightarrow> audit_acc \<Rightarrow> string \<Rightarrow> py_error + audit_acc" where
  "audit_review rita_data gemini_data acc review_id =
    (let rita = get_aspects rita_data review_id;
         gemini = get_aspects gemini_data review_id
     in case calculate_metrics rita gemini of
          Inl e \<Rightarrow> Inl e
        | Inr m \<Rightarrow>
            Inr \<lparr>results = results acc @
                   [\<lparr>Review_ID = review_id,
                     Rita_Aspects = (if rita \<noteq> [] then py_join '', '' rita else ''NONE''),
                     Rita_Count = int (length rita),
                     Gemini_Aspects = (if gemini \<noteq> [] then py_join '', '' gemini else ''NONE''),
                     Gemini_Count = int (length gemini),
                     True_Positives = tp m,
                     False_Negatives = fn m,
                     False_Positives = fp m,
                     Recall = format_3f (recall m),
                     Precision = format_3f (precision m),
                     F1_Score = format_3f (f1 m),
                     Details = details m\<rparr>],
                 total_recall = total_recall acc + recall m,
                 total_precision = total_precision acc + precision m,
                 total_f1 = total_f1 acc + f1 m,
                 total_tp = total_tp acc + tp m,
                 total_fn = total_fn acc + fn m,
                 total_fp = total_fp acc + fp m\<rparr>)"

fun audit_loop :: "reviews \<Rightarrow> reviews \<Rightarrow> string list \<Rightarrow> audit_acc \<Rightarrow> py_error + audit_acc" where
  "audit_loop rita_data gemini_data [] acc = Inr acc"
| "audit_loop rita_data gemini_data (review_id # rest) acc =
    (case audit_review rita_data gemini_data acc review_id of
       Inl e \<Rightarrow> Inl e
     | Inr acc' \<Rightarrow> audit_loop rita_data gemini_data rest acc')"

text \<open>What is written to \<^verbatim>\<open>output_csv\<close>: nothing when \<^verbatim>\<open>results\<close> is empty, otherwise the
  header and one line per entry.\<close>

definition write_results :: "result_row list \<Rightarrow> string list list" where
  "write_results rs = (if rs \<noteq> [] then fieldnames # map row_cells rs else [])"

datatype decision = GREEN_LIGHT | RED_FLAG

definition decide :: "rat \<Rightarrow> decision" where
  "decide decision_metric = (if decision_metric \<ge> 80 then GREEN_LIGHT else RED_FLAG)"

text \<open>The listing of the worst cases: the loop over \<^verbatim>\<open>sorted_results\<close> with its counter,
  returning the rows it prints.\<close>

fun worst_loop :: "result_row list \<Rightarrow> nat \<Rightarrow> result_row list" where
  "worst_loop [] count = []"
| "worst_loop (r # rs) count =
    (if float_of_3f (F1_Score r) < 1 / 2 \<and> count < 10
     then r # worst_loop rs (count + 1)
     else worst_loop rs count)"

definition worst_cases :: "result_row list \<Rightarrow> result_row list" where
  "worst_cases rs = worst_loop (sort_key (\<lambda>x. float_of_3f (F1_Score x)) rs) 0"

text \<open>The dict \<^verbatim>\<open>run_audit\<close> returns; the last three fields are its keys \<^verbatim>\<open>total_tp\<close>,
  \<^verbatim>\<open>total_fn\<close> and \<^verbatim>\<open>total_fp\<close>.\<close>

record audit_summary =
  macro_f1 :: rat
  micro_f1 :: rat
  micro_recall :: rat
  micro_precision :: rat
  sum_tp :: int
  sum_fn :: int
  sum_fp :: int

text \<open>
  The effects of a run: the rows computed, the lines written to the output file, the two
  macro averages that are only printed, the branch of the decision, the worst cases
  printed in the negative branch (none in the positive one), and the returned summary.
  The rest of the console text is not modelled.
\<close>

record audit_report =
  result_rows :: "result_row list"
  artifact :: "string list list"
  macro_recall :: rat
  macro_precision :: rat
  verdict :: decision
  worst :: "result_row list"
  summary :: audit_summary

text \<open>
  \<^verbatim>\<open>run_audit\<close>, on the rows of the reference file and the lines of the candidate file.
  Every division of the aggregates stands under the source's own guard that its
  denominator is positive.
\<close>

definition run_audit :: "(string \<times> string) list \<Rightarrow> string list \<Rightarrow> py_error + audit_report" where
  "run_audit rita_csv gemini_csv =
    (let rita_data = load_rita_aspects rita_csv;
         gemini_data = load_gemini_aspects gemini_csv;
         all_reviews = sorted_list_of_set (set (map fst rita_data) \<union> set (map fst gemini_data))
     in case audit_loop rita_data gemini_data all_reviews
               \<lparr>results = [], total_recall = 0, total_precision = 0, total_f1 = 0,
                total_tp = 0, total_fn = 0, total_fp = 0\<rparr> of
          Inl e \<Rightarrow> Inl e
        | Inr acc \<Rightarrow>
            (let num_reviews = int (length (results acc));
                 macro_recall_v =
                   (if num_reviews > 0 then total_recall acc / of_int num_reviews * 100 else 0);
                 macro_precision_v =
                   (if num_reviews > 0 then total_precision acc / of_int num_reviews * 100 else 0);
                 macro_f1_v =
                   (if num_reviews > 0 then total_f1 acc / of_int num_reviews * 100 else 0);
                 micro_recall_v =
                   (if total_tp acc + total_fn acc > 0
                    then of_int (total_tp acc) / of_int (total_tp acc + total_fn acc) * 100 else 0);
                 micro_precision_v =
                   (if total_tp acc + total_fp acc > 0
                    then of_int (total_tp acc) / of_int (total_tp acc + total_fp acc) * 100 else 0);
                 micro_f1_v =
                   (if micro_recall_v + micro_precision_v > 0
                    then 2 * (micro_recall_v * micro_precision_v) / (micro_recall_v + micro_precision_v)
                    else 0);
                 decision_metric = micro_f1_v
             in Inr \<lparr>result_rows = results acc,
                     artifact = write_results (results acc),
                     macro_recall = macro_recall_v,
                     macro_precision = macro_precision_v,
                     verdict = decide decision_metric,
                     worst = (case decide decision_metric of
                                GREEN_LIGHT \<Rightarrow> []
                              | RED_FLAG \<Rightarrow> worst_cases (results acc)),
                     summary = \<lparr>macro_f1 = macro_f1_v, micro_f1 = micro_f1_v,
                                micro_recall = micro_recall_v, micro_precision = micro_precision_v,
                                sum_tp = total_tp acc, sum_fn = total_fn acc,
                                sum_fp = total_fp acc\<rparr>\<rparr>))"

section \<open>Properties\<close>

subsection \<open>Trimming\<close>

lemma dropWhile_last_keep:
  "xs \<noteq> [] \<Longrightarrow> \<not> P (last xs) \<Longrightarrow> dropWhile P xs \<noteq> [] \<and> last (dropWhile P xs) = last xs"
  by (induction xs) auto

lemma strip_core_ends:
  assumes d: "dropWhile P (rev (dropWhile P s)) \<noteq> []"
  shows "\<not> P (hd (rev (dropWhile P (rev (dropWhile P s))))) \<and>
         \<not> P (last (rev (dropWhile P (rev (dropWhile P s)))))"
proof -
  define t where "t = dropWhile P s"
  define d where "d = dropWhile P (rev t)"
  have dne: "d \<noteq> []" unfolding d_def t_def by (rule assms)
  have tne: "t \<noteq> []"
  proof
    assume "t = []"
    then have "d = []" by (simp add: d_def)
    with dne show False by simp
  qed
  have ht: "\<not> P (hd t)" unfolding t_def using tne[unfolded t_def] by (rule hd_dropWhile)
  have "rev t \<noteq> []" using tne by simp
  moreover have "\<not> P (last (rev t))" using tne ht by (simp add: last_rev)
  ultimately have "last d = last (rev t)" unfolding d_def using dropWhile_last_keep by blast
  then have "last d = hd t" using tne by (simp add: last_rev)
  then have 1: "hd (rev d) = hd t" using dne by (simp add: hd_rev)
  have "\<not> P (hd d)" unfolding d_def using dne[unfolded d_def] by (rule hd_dropWhile)
  then have 2: "\<not> P (last (rev d))" using dne by (simp add: last_rev)
  from 1 2 ht show ?thesis unfolding d_def t_def by simp
qed

lemma py_strip_chars_ends:
  assumes "py_strip_chars cs s \<noteq> []"
  shows "hd (py_strip_chars cs s) \<notin> set cs \<and> last (py_strip_chars cs s) \<notin> set cs"
proof -
  from assms have "dropWhile (\<lambda>c. c \<in> set cs) (rev (dropWhile (\<lambda>c. c \<in> set cs) s)) \<noteq> []"
    unfolding py_strip_chars_def rev_is_Nil_conv .
  from strip_core_ends[OF this] show ?thesis unfolding py_strip_chars_def .
qed

lemma py_strip_chars_idem: "py_strip_chars cs (py_strip_chars cs s) = py_strip_chars cs s"
proof (cases "py_strip_chars cs s = []")
  case True
  have "py_strip_chars cs [] = []" by (simp add: py_strip_chars_def)
  with True show ?thesis by (simp only:)
next
  case False
  define r where "r = py_strip_chars cs s"
  from py_strip_chars_ends[OF False] have h: "hd r \<notin> set cs" and l: "last r \<notin> set cs"
    unfolding r_def by blast+
  have rne: "r \<noteq> []" unfolding r_def by (rule False)
  have 1: "dropWhile (\<lambda>c. c \<in> set cs) r = r" using rne h by (simp add: dropWhile_eq_self_iff)
  have 2: "dropWhile (\<lambda>c. c \<in> set cs) (rev r) = rev r"
    using rne l by (simp add: dropWhile_eq_self_iff hd_rev)
  have "py_strip_chars cs r = rev (dropWhile (\<lambda>c. c \<in> set cs) (rev (dropWhile (\<lambda>c. c \<in> set cs) r)))"
    by (simp only: py_strip_chars_def)
  also have "\<dots> = r" by (simp only: 1 2 rev_rev_ident)
  finally show ?thesis unfolding r_def .
qed

lemma py_strip_chars_decomp:
  "\<exists>a b. s = a @ py_strip_chars cs s @ b \<and> set a \<subseteq> set cs \<and> set b \<subseteq> set cs"
proof -
  let ?P = "\<lambda>c. c \<in> set cs"
  define t where "t = dropWhile ?P s"
  define a where "a = takeWhile ?P s"
  define b where "b = rev (takeWhile ?P (rev t))"
  have "rev (takeWhile ?P (rev t) @ dropWhile ?P (rev t)) = rev (rev t)"
    by (simp only: takeWhile_dropWhile_id)
  then have t: "py_strip_chars cs s @ b = t"
    by (simp only: rev_append rev_rev_ident py_strip_chars_def b_def t_def)
  have "a @ t = s" unfolding a_def t_def by (rule takeWhile_dropWhile_id)
  then have "s = a @ py_strip_chars cs s @ b" by (simp only: t)
  moreover have "set a \<subseteq> set cs" unfolding a_def by (auto dest: set_takeWhileD)
  moreover have "set b \<subseteq> set cs" unfolding b_def by (auto dest: set_takeWhileD)
  ultimately show ?thesis by blast
qed

subsection \<open>Splitting and joining\<close>

lemma py_split_nonempty: "py_split c s \<noteq> []"
  by (induction s) (auto split: list.splits)

lemma py_split_no_sep: "p \<in> set (py_split c s) \<Longrightarrow> c \<notin> set p"
  by (induction s arbitrary: p) (auto split: list.splits if_splits)

lemma py_join_Cons: "ps \<noteq> [] \<Longrightarrow> py_join sep (p # ps) = p @ sep @ py_join sep ps"
  by (cases ps) auto

lemma py_join_split: "py_join [c] (py_split c s) = s"
proof (induction s)
  case Nil
  then show ?case by simp
next
  case (Cons x xs)
  obtain p ps where ps: "py_split c xs = p # ps"
    using py_split_nonempty[of c xs] by (cases "py_split c xs") auto
  show ?case
  proof (cases "x = c")
    case True
    then show ?thesis using Cons py_split_nonempty[of c xs] by (simp add: py_join_Cons)
  next
    case False
    then show ?thesis using Cons ps by (cases ps) auto
  qed
qed

lemma py_split_length: "length (py_split c s) = Suc (length (filter (\<lambda>x. x = c) s))"
  by (induction s) (auto split: list.splits simp: py_split_nonempty)

lemma py_split_short_iff: "length (py_split c s) < 2 \<longleftrightarrow> c \<notin> set s"
  by (auto simp: py_split_length filter_empty_conv less_Suc_eq)

subsection \<open>Aspect normalizer\<close>

lemma canonical_fixed: "v \<in> snd ` set mapping \<Longrightarrow> normalize_aspect_name v = v"
  unfolding mapping_def
  apply simp
  apply (elim disjE)
  apply (simp_all add: normalize_aspect_name_def py_strip_def py_strip_chars_def whitespace_def py_lower_def lower_char_def mapping_def)
  done

lemma normalize_idem: "normalize_aspect_name (normalize_aspect_name x) = normalize_aspect_name x"
proof (cases "map_of mapping (py_lower (py_strip x))")
  case None
  then have "normalize_aspect_name x = py_strip x" by (simp add: normalize_aspect_name_def)
  moreover have "normalize_aspect_name (py_strip x) = py_strip x"
    using None by (simp add: normalize_aspect_name_def py_strip_def py_strip_chars_idem)
  ultimately show ?thesis by simp
next
  case (Some v)
  then have "normalize_aspect_name x = v" by (simp add: normalize_aspect_name_def)
  moreover from Some have "v \<in> snd ` set mapping" by (force dest: map_of_SomeD)
  ultimately show ?thesis by (simp add: canonical_fixed)
qed

lemma mapping_entry_nonempty: "map_of mapping k = Some v \<Longrightarrow> k \<noteq> [] \<and> v \<noteq> []"
  unfolding mapping_def by (auto split: if_splits)

lemma normalize_empty_iff: "normalize_aspect_name a = [] \<longleftrightarrow> py_strip a = []"
proof (cases "map_of mapping (py_lower (py_strip a))")
  case None
  then show ?thesis by (simp add: normalize_aspect_name_def)
next
  case (Some v)
  from mapping_entry_nonempty[OF Some] have "py_lower (py_strip a) \<noteq> []" "v \<noteq> []" by simp_all
  then have "py_strip a \<noteq> []" "v \<noteq> []" by (simp_all add: py_lower_def)
  then show ?thesis using Some by (simp add: normalize_aspect_name_def)
qed

lemma normalize_strip: "normalize_aspect_name (py_strip a) = normalize_aspect_name a"
  by (simp add: normalize_aspect_name_def py_strip_def py_strip_chars_idem)

text \<open>
  Claim C3. The normalizer is idempotent (for every input, so in particular for inputs in
  canonical form); its table lookup uses the trimmed, lower-cased input, so two inputs
  that agree after trimming and lower-casing and hit the table get the same result, for
  instance \<open>Material/ Quality\<close> and \<open>material/quality\<close> both give \<open>Material/Quality\<close>; and
  when no table entry matches, the result is the trimmed input with its case preserved.
\<close>

theorem normalize_aspect_name_spec:
  "normalize_aspect_name (normalize_aspect_name w) = normalize_aspect_name w \<and>
   (py_lower (py_strip x) = py_lower (py_strip y) \<and> map_of mapping (py_lower (py_strip x)) \<noteq> None
      \<longrightarrow> normalize_aspect_name x = normalize_aspect_name y) \<and>
   normalize_aspect_name ''Material/ Quality'' = ''Material/Quality'' \<and>
   normalize_aspect_name ''material/quality'' = ''Material/Quality'' \<and>
   (map_of mapping (py_lower (py_strip z)) = None \<longrightarrow> normalize_aspect_name z = py_strip z)"
proof -
  have "normalize_aspect_name ''Material/ Quality'' = ''Material/Quality''"
    by (simp add: normalize_aspect_name_def py_strip_def py_strip_chars_def whitespace_def py_lower_def lower_char_def mapping_def)
  moreover have "normalize_aspect_name ''material/quality'' = ''Material/Quality''"
    by (simp add: normalize_aspect_name_def py_strip_def py_strip_chars_def whitespace_def py_lower_def lower_char_def mapping_def)
  moreover have "map_of mapping (py_lower (py_strip z)) = None \<longrightarrow> normalize_aspect_name z = py_strip z"
    by (simp add: normalize_aspect_name_def)
  moreover have "py_lower (py_strip x) = py_lower (py_strip y) \<and> map_of mapping (py_lower (py_strip x)) \<noteq> None
      \<longrightarrow> normalize_aspect_name x = normalize_aspect_name y"
    by (auto simp: normalize_aspect_name_def)
  ultimately show ?thesis using normalize_idem by blast
qed

theorem normalize_aspect_name_spec_witness:
  "normalize_aspect_name (normalize_aspect_name ''  STYLE '') = normalize_aspect_name ''  STYLE '' \<and>
   py_lower (py_strip '' Fit/SIZING'') = py_lower (py_strip ''fit/sizing  '') \<and>
   map_of mapping (py_lower (py_strip '' Fit/SIZING'')) \<noteq> None \<and>
   normalize_aspect_name '' Fit/SIZING'' = normalize_aspect_name ''fit/sizing  '' \<and>
   map_of mapping (py_lower (py_strip '' Battery Life '')) = None \<and>
   normalize_aspect_name '' Battery Life '' = ''Battery Life''"
proof -
  have h1: "py_lower (py_strip '' Fit/SIZING'') = py_lower (py_strip ''fit/sizing  '')"
    by code_simp
  have h2: "map_of mapping (py_lower (py_strip '' Fit/SIZING'')) \<noteq> None"
    by code_simp
  have h3: "map_of mapping (py_lower (py_strip '' Battery Life '')) = None"
    by code_simp
  have h4: "py_strip '' Battery Life '' = ''Battery Life''"
    by code_simp
  from normalize_aspect_name_spec
         [of "''  STYLE ''" "'' Fit/SIZING''" "''fit/sizing  ''" "'' Battery Life ''"]
  show ?thesis using h1 h2 h3 h4 by metis
qed

subsection \<open>Source loaders\<close>

lemma map_of_rita_row:
  "map_of (rita_row reviews row) = (map_of reviews)(fst row \<mapsto> rita_aspects_of (snd row))"
  by (simp add: rita_row_def AList.update_conv')

lemma load_rita_snoc: "load_rita_aspects (rs @ [row]) = rita_row (load_rita_aspects rs) row"
  by (simp add: load_rita_aspects_def)

lemma map_of_load_rita:
  "map_of (load_rita_aspects rs) k =
    (let hits = filter (\<lambda>row. fst row = k) rs
     in if hits = [] then None else Some (rita_aspects_of (snd (last hits))))"
proof (induction rs rule: rev_induct)
  case Nil
  then show ?case by (simp add: load_rita_aspects_def)
next
  case (snoc row rs)
  show ?case
  proof (cases "fst row = k")
    case True
    then show ?thesis
      by (simp only: load_rita_snoc map_of_rita_row filter_append filter.simps Let_def
            fun_upd_same if_True last_snoc append_is_Nil_conv list.distinct simp_thms if_False)
  next
    case False
    then have "map_of (load_rita_aspects (rs @ [row])) k = map_of (load_rita_aspects rs) k"
      by (simp only: load_rita_snoc map_of_rita_row fun_upd_other not_False_eq_True)
    moreover have "filter (\<lambda>row. fst row = k) (rs @ [row]) = filter (\<lambda>row. fst row = k) rs"
      using False by simp
    ultimately show ?thesis using snoc by (simp only:)
  qed
qed

lemma gemini_line_entry:
  "gemini_line reviews line =
    (case gemini_entry line of
       None \<Rightarrow> reviews
     | Some (k, a) \<Rightarrow> AList.update k (get_aspects reviews k @ [a]) reviews)"
  by (simp add: gemini_line_def gemini_entry_def Let_def split: option.splits prod.splits)

lemma map_of_gemini_fold:
  "map_of (fold (\<lambda>line reviews. gemini_line reviews line) ls []) k =
    (let xs = map snd (filter (\<lambda>e. fst e = k) (List.map_filter gemini_entry ls))
     in if xs = [] then None else Some xs)"
proof (induction ls rule: rev_induct)
  case Nil
  then show ?case by (simp add: List.map_filter_simps)
next
  case (snoc l ls)
  let ?G = "fold (\<lambda>line reviews. gemini_line reviews line) ls []"
  have step: "fold (\<lambda>line reviews. gemini_line reviews line) (ls @ [l]) [] = gemini_line ?G l"
    by simp
  show ?case
  proof (cases "gemini_entry l")
    case None
    then show ?thesis using snoc
      by (simp add: step gemini_line_entry List.map_filter_def)
  next
    case (Some e)
    obtain k' a where e: "e = (k', a)" by (cases e)
    show ?thesis
    proof (cases "k' = k")
      case True
      then show ?thesis using snoc Some e
        by (simp add: step gemini_line_entry List.map_filter_def AList.update_conv'
            get_aspects_def Let_def)
    next
      case False
      then show ?thesis using snoc Some e
        by (simp add: step gemini_line_entry List.map_filter_def AList.update_conv' Let_def)
    qed
  qed
qed

lemma map_of_load_gemini:
  "map_of (load_gemini_aspects lines) k =
    (let xs = map snd (filter (\<lambda>e. fst e = k) (List.map_filter gemini_entry (drop 1 lines)))
     in if xs = [] then None else Some xs)"
  unfolding load_gemini_aspects_def by (rule map_of_gemini_fold)

text \<open>
  Claim C5, as amended. For every data line of the candidate file the loader strips the
  whitespace at both ends of the line, then every leading and every trailing quote
  character (not one layer only), then splits the rest on each comma. With at least two
  columns, the review identifier is column 0 and the aspect column 1, each stripped of
  surrounding whitespace, and what the line adds depends on no other column; a line with
  fewer than two columns is discarded and leaves the mapping as it was.
\<close>

theorem gemini_line_transform:
  "(let stripped = py_strip line;
        l = py_strip_chars [CHR 0x22] stripped;
        parts = py_split CHR '','' l
    in (\<exists>a b. line = a @ stripped @ b \<and> set a \<subseteq> set whitespace \<and> set b \<subseteq> set whitespace) \<and>
       (stripped \<noteq> [] \<longrightarrow> hd stripped \<notin> set whitespace \<and> last stripped \<notin> set whitespace) \<and>
       (\<exists>a b. stripped = a @ l @ b \<and> set a \<subseteq> {CHR 0x22} \<and> set b \<subseteq> {CHR 0x22}) \<and>
       (l \<noteq> [] \<longrightarrow> hd l \<noteq> CHR 0x22 \<and> last l \<noteq> CHR 0x22) \<and>
       py_join '','' parts = l \<and> (\<forall>p \<in> set parts. CHR '','' \<notin> set p) \<and>
       (2 \<le> length parts \<longrightarrow>
          gemini_fields line = Some (py_strip (parts ! 0), py_strip (parts ! 1)) \<and>
          gemini_line reviews line =
            (if normalize_aspect_name (parts ! 1) = [] then reviews
             else AList.update (py_strip (parts ! 0))
                    (get_aspects reviews (py_strip (parts ! 0)) @ [normalize_aspect_name (parts ! 1)])
                    reviews))) \<and>
   (length (py_split CHR '','' (py_strip_chars [CHR 0x22] (py_strip short))) < 2 \<longrightarrow>
      gemini_fields short = None \<and> gemini_line reviews short = reviews)"
proof -
  define stripped where "stripped = py_strip line"
  define l where "l = py_strip_chars [CHR 0x22] stripped"
  define parts where "parts = py_split CHR '','' l"
  have a: "\<exists>a b. line = a @ stripped @ b \<and> set a \<subseteq> set whitespace \<and> set b \<subseteq> set whitespace"
    unfolding stripped_def py_strip_def by (rule py_strip_chars_decomp)
  have b: "stripped \<noteq> [] \<longrightarrow> hd stripped \<notin> set whitespace \<and> last stripped \<notin> set whitespace"
    unfolding stripped_def py_strip_def using py_strip_chars_ends by blast
  have "\<exists>a b. stripped = a @ l @ b \<and> set a \<subseteq> set [CHR 0x22] \<and> set b \<subseteq> set [CHR 0x22]"
    unfolding l_def by (rule py_strip_chars_decomp)
  then have c: "\<exists>a b. stripped = a @ l @ b \<and> set a \<subseteq> {CHR 0x22} \<and> set b \<subseteq> {CHR 0x22}"
    by simp
  have "l \<noteq> [] \<longrightarrow> hd l \<notin> set [CHR 0x22] \<and> last l \<notin> set [CHR 0x22]"
    unfolding l_def using py_strip_chars_ends by blast
  then have d: "l \<noteq> [] \<longrightarrow> hd l \<noteq> CHR 0x22 \<and> last l \<noteq> CHR 0x22" by simp
  have e: "py_join '','' parts = l" unfolding parts_def by (rule py_join_split)
  have f: "\<forall>p \<in> set parts. CHR '','' \<notin> set p"
    unfolding parts_def using py_split_no_sep by blast
  have g: "gemini_fields line = Some (py_strip (parts ! 0), py_strip (parts ! 1)) \<and>
          gemini_line reviews line =
            (if normalize_aspect_name (parts ! 1) = [] then reviews
             else AList.update (py_strip (parts ! 0))
                    (get_aspects reviews (py_strip (parts ! 0)) @ [normalize_aspect_name (parts ! 1)])
                    reviews)"
    if "2 \<le> length parts"
  proof -
    from that have gf: "gemini_fields line = Some (py_strip (parts ! 0), py_strip (parts ! 1))"
      by (simp add: gemini_fields_def Let_def parts_def l_def stripped_def)
    then show ?thesis
      by (simp add: gemini_line_def Let_def normalize_strip)
  qed
  have h: "length (py_split CHR '','' (py_strip_chars [CHR 0x22] (py_strip short))) < 2 \<longrightarrow>
      gemini_fields short = None \<and> gemini_line reviews short = reviews"
    by (simp add: gemini_line_def gemini_fields_def Let_def)
  from a b c d e f g h show ?thesis
    unfolding Let_def stripped_def[symmetric] l_def[symmetric] parts_def[symmetric]
    by blast
qed

theorem gemini_line_transform_witness:
  "gemini_fields ''  \"RRE_001, Fit/Sizing ,negative,\"\"evidence\"\"\"\<newline>'' =
     Some (''RRE_001'', ''Fit/Sizing'') \<and>
   gemini_line [(''RRE_001'', [''Comfort''])] ''  \"RRE_001, Fit/Sizing ,negative,\"\"evidence\"\"\"\<newline>'' =
     [(''RRE_001'', [''Comfort'', ''Sizing/Fit''])] \<and>
   length (py_split CHR '','' (py_strip_chars [CHR 0x22] (py_strip ''no comma here\<newline>''))) < 2 \<and>
   gemini_fields ''no comma here\<newline>'' = None \<and>
   gemini_line [(''RRE_001'', [''Comfort''])] ''no comma here\<newline>'' = [(''RRE_001'', [''Comfort''])]"
proof -
  have p: "py_split CHR '','' (py_strip_chars [CHR 0x22]
             (py_strip ''  \"RRE_001, Fit/Sizing ,negative,\"\"evidence\"\"\"\<newline>'')) =
           [''RRE_001'', '' Fit/Sizing '', ''negative'', ''\"\"evidence'']"
    by code_simp
  have s1: "py_strip ''RRE_001'' = ''RRE_001''" "py_strip '' Fit/Sizing '' = ''Fit/Sizing''"
    "normalize_aspect_name '' Fit/Sizing '' = ''Sizing/Fit''"
    by code_simp+
  have q: "length (py_split CHR '','' (py_strip_chars [CHR 0x22] (py_strip ''no comma here\<newline>''))) < 2"
    by code_simp
  from gemini_line_transform
         [where line = "''  \"RRE_001, Fit/Sizing ,negative,\"\"evidence\"\"\"\<newline>''"
            and short = "''no comma here\<newline>''" and reviews = "[(''RRE_001'', [''Comfort''])]"]
  show ?thesis using q
    unfolding Let_def p by (simp add: s1 get_aspects_def)
qed

text \<open>
  The transformation worded in the specification (trailing whitespace, one layer of
  quotes, column 0 as the identifier) differs from the loader on a line wrapped in two
  layers of quotes: the loader reads the identifier \<open>RRE_007\<close>, the specification's
  wording keeps a quote character in front of it.
\<close>

theorem gemini_line_transform_counterexample:
  "gemini_fields ''\"\"RRE_007,Comfort,positive\"\"\<newline>'' = Some (''RRE_007'', ''Comfort'') \<and>
   spec_gemini_fields ''\"\"RRE_007,Comfort,positive\"\"\<newline>'' = Some (''\"RRE_007'', ''Comfort'') \<and>
   gemini_fields ''\"\"RRE_007,Comfort,positive\"\"\<newline>'' \<noteq>
     spec_gemini_fields ''\"\"RRE_007,Comfort,positive\"\"\<newline>'' \<and>
   load_gemini_aspects [''Review_ID,Aspect'', ''\"\"RRE_007,Comfort,positive\"\"\<newline>''] =
     [(''RRE_007'', [''Comfort''])]"
proof -
  have 1: "gemini_fields ''\"\"RRE_007,Comfort,positive\"\"\<newline>'' = Some (''RRE_007'', ''Comfort'')"
    by code_simp
  have 2: "spec_gemini_fields ''\"\"RRE_007,Comfort,positive\"\"\<newline>'' = Some (''\"RRE_007'', ''Comfort'')"
    by code_simp
  have 3: "load_gemini_aspects [''Review_ID,Aspect'', ''\"\"RRE_007,Comfort,positive\"\"\<newline>''] =
     [(''RRE_007'', [''Comfort''])]"
    by code_simp
  from 1 2 3 show ?thesis by simp
qed

text \<open>
  Claim C6. Duplicate keys are handled differently by the two loaders. In the reference
  loader the list of a review is the one of the last row with that identifier: a later
  row replaces the earlier ones. In the candidate loader the list of a review collects,
  in file order, the normalized aspect of every data line with that identifier.
\<close>

theorem loaders_duplicate_keys:
  "map_of (load_rita_aspects rs) k =
     (let hits = filter (\<lambda>row. fst row = k) rs
      in if hits = [] then None else Some (rita_aspects_of (snd (last hits)))) \<and>
   map_of (load_gemini_aspects ls) k =
     (let xs = map snd (filter (\<lambda>e. fst e = k) (List.map_filter gemini_entry (drop 1 ls)))
      in if xs = [] then None else Some xs) \<and>
   load_rita_aspects [(''A'', ''Comfort''), (''A'', ''Durability'')] = [(''A'', [''Durability''])] \<and>
   load_gemini_aspects [''Review_ID,Aspect'', ''A,Comfort'', ''A,Durability''] =
     [(''A'', [''Comfort'', ''Durability''])]"
proof -
  have "load_rita_aspects [(''A'', ''Comfort''), (''A'', ''Durability'')] = [(''A'', [''Durability''])]"
    by code_simp
  moreover have "load_gemini_aspects [''Review_ID,Aspect'', ''A,Comfort'', ''A,Durability''] =
     [(''A'', [''Comfort'', ''Durability''])]"
    by code_simp
  ultimately show ?thesis
    using map_of_load_rita[of rs k] map_of_load_gemini[of ls k] by (simp only: simp_thms)
qed

text \<open>
  Claim C10. In the candidate loader a data line with at least two columns whose aspect
  normalizes to the empty string (which happens exactly for an aspect of whitespace only)
  adds nothing: the mapping is unchanged, and a review all of whose lines are such lines
  is not a key of the result. In the reference loader a row whose aspects all normalize to
  the empty string still records its review, with the empty list.
\<close>

theorem gemini_empty_aspect:
  "(gemini_fields line = Some (k, a) \<and> normalize_aspect_name a = [] \<longrightarrow>
      gemini_line reviews line = reviews) \<and>
   (normalize_aspect_name a = [] \<longleftrightarrow> py_strip a = []) \<and>
   ((\<forall>l \<in> set (drop 1 ls). \<forall>b. gemini_fields l = Some (k, b) \<longrightarrow> normalize_aspect_name b = []) \<longrightarrow>
      map_of (load_gemini_aspects ls) k = None \<and> k \<notin> fst ` set (load_gemini_aspects ls)) \<and>
   (rita_aspects_of s = [] \<longrightarrow>
      map_of (load_rita_aspects (rs @ [(k, s)])) k = Some [] \<and>
      k \<in> fst ` set (load_rita_aspects (rs @ [(k, s)])))"
proof -
  have 1: "gemini_fields line = Some (k, a) \<and> normalize_aspect_name a = [] \<longrightarrow>
      gemini_line reviews line = reviews"
    by (simp add: gemini_line_def)
  have 3: "map_of (load_gemini_aspects ls) k = None \<and> k \<notin> fst ` set (load_gemini_aspects ls)"
    if h: "\<forall>l \<in> set (drop 1 ls). \<forall>b. gemini_fields l = Some (k, b) \<longrightarrow> normalize_aspect_name b = []"
  proof -
    have "filter (\<lambda>e. fst e = k) (List.map_filter gemini_entry (drop 1 ls)) = []"
    proof (rule ccontr)
      assume "filter (\<lambda>e. fst e = k) (List.map_filter gemini_entry (drop 1 ls)) \<noteq> []"
      then obtain e where e: "e \<in> set (List.map_filter gemini_entry (drop 1 ls))" "fst e = k"
        by (auto simp: filter_empty_conv)
      then obtain l where l: "l \<in> set (drop 1 ls)" "gemini_entry l = Some e"
        by (auto simp: List.map_filter_def)
      then obtain b where "gemini_fields l = Some (k, b)" "normalize_aspect_name b \<noteq> []"
        using e(2) by (auto simp: gemini_entry_def split: option.splits prod.splits if_splits)
      with h l(1) show False by blast
    qed
    then have n: "map_of (load_gemini_aspects ls) k = None"
      by (simp add: map_of_load_gemini)
    then have "k \<notin> fst ` set (load_gemini_aspects ls)"
      by (simp add: map_of_eq_None_iff)
    with n show ?thesis by simp
  qed
  have 4: "map_of (load_rita_aspects (rs @ [(k, s)])) k = Some [] \<and>
      k \<in> fst ` set (load_rita_aspects (rs @ [(k, s)]))"
    if h: "rita_aspects_of s = []"
  proof -
    have "map_of (load_rita_aspects (rs @ [(k, s)])) k = Some (rita_aspects_of s)"
      by (simp only: load_rita_snoc map_of_rita_row fst_conv snd_conv fun_upd_same)
    with h have m: "map_of (load_rita_aspects (rs @ [(k, s)])) k = Some []" by (simp only:)
    then have "k \<in> fst ` set (load_rita_aspects (rs @ [(k, s)]))"
      by (metis map_of_eq_None_iff option.distinct(1))
    with m show ?thesis by simp
  qed
  from 1 3 4 normalize_empty_iff[of a] show ?thesis by blast
qed

theorem gemini_empty_aspect_witness:
  "gemini_fields ''R1,   ,neutral\<newline>'' = Some (''R1'', []) \<and>
   normalize_aspect_name [] = [] \<and>
   gemini_line [(''R0'', [''Comfort''])] ''R1,   ,neutral\<newline>'' = [(''R0'', [''Comfort''])] \<and>
   map_of (load_gemini_aspects [''Review_ID,Aspect'', ''R1,   ,neutral\<newline>'', ''R2,Comfort,x\<newline>'']) ''R1'' = None \<and>
   ''R1'' \<notin> fst ` set (load_gemini_aspects [''Review_ID,Aspect'', ''R1,   ,neutral\<newline>'', ''R2,Comfort,x\<newline>'']) \<and>
   rita_aspects_of '' , '' = [] \<and>
   map_of (load_rita_aspects ([(''R1'', ''Comfort'')] @ [(''R1'', '' , '')])) ''R1'' = Some [] \<and>
   ''R1'' \<in> fst ` set (load_rita_aspects ([(''R1'', ''Comfort'')] @ [(''R1'', '' , '')]))"
proof -
  have f1: "gemini_fields ''R1,   ,neutral\<newline>'' = Some (''R1'', [])" by code_simp
  have f2: "gemini_fields ''R2,Comfort,x\<newline>'' = Some (''R2'', ''Comfort'')" by code_simp
  have n: "normalize_aspect_name [] = []" by code_simp
  have r: "rita_aspects_of '' , '' = []" by code_simp
  have h: "\<forall>l \<in> set (drop 1 [''Review_ID,Aspect'', ''R1,   ,neutral\<newline>'', ''R2,Comfort,x\<newline>'']).
             \<forall>b. gemini_fields l = Some (''R1'', b) \<longrightarrow> normalize_aspect_name b = []"
    using f1 f2 n by simp
  from gemini_empty_aspect
         [where line = "''R1,   ,neutral\<newline>''" and k = "''R1''" and a = "[]"
            and reviews = "[(''R0'', [''Comfort''])]"
            and ls = "[''Review_ID,Aspect'', ''R1,   ,neutral\<newline>'', ''R2,Comfort,x\<newline>'']"
            and s = "'' , ''" and rs = "[(''R1'', ''Comfort'')]"]
  show ?thesis using f1 n r h by blast
qed

subsection \<open>Metric calculator\<close>

lemma harmonic_le_one:
  fixes r p :: rat
  assumes "0 \<le> r" "r \<le> 1" "0 \<le> p" "p \<le> 1" "0 < r + p"
  shows "0 \<le> 2 * (r * p) / (r + p) \<and> 2 * (r * p) / (r + p) \<le> 1"
proof -
  have "r * p \<le> r" using assms by (simp add: mult_left_le)
  moreover have "r * p \<le> p" using assms by (simp add: mult_left_le_one_le)
  ultimately have "2 * (r * p) \<le> r + p" by simp
  then have "2 * (r * p) / (r + p) \<le> 1" using assms(5) by (simp add: divide_le_eq)
  moreover have "0 \<le> 2 * (r * p) / (r + p)" using assms by simp
  ultimately show ?thesis by simp
qed

lemma card_ratio_bounds:
  assumes "finite B" "A \<subseteq> B"
  shows "0 \<le> (of_int (int (card A)) / of_int (int (card B)) :: rat) \<and>
         (of_int (int (card A)) / of_int (int (card B)) :: rat) \<le> 1"
proof -
  have "card A \<le> card B" using assms by (simp add: card_mono)
  then show ?thesis by (auto simp: divide_le_eq_1)
qed

text \<open>In the general case no guard of the source fails and no division is by zero.\<close>

lemma calculate_metrics_general:
  assumes "rita \<noteq> []" "gemini \<noteq> []"
  shows "calculate_metrics rita gemini =
    (let rita_set = set (map py_lower rita);
         gemini_set = set (map py_lower gemini);
         r = of_int (int (card (rita_set \<inter> gemini_set))) / of_int (int (card rita_set));
         p = of_int (int (card (rita_set \<inter> gemini_set))) / of_int (int (card gemini_set))
     in Inr \<lparr>recall = r, precision = p,
             f1 = (if r + p > 0 then 2 * (r * p) / (r + p) else 0),
             tp = int (card (rita_set \<inter> gemini_set)),
             fn = int (card (rita_set - gemini_set)),
             fp = int (card (gemini_set - rita_set)),
             details = details_str rita_set gemini_set\<rparr>)"
proof -
  have "card (set (map py_lower rita)) > 0" "card (set (map py_lower gemini)) > 0"
    using assms by (simp_all add: card_gt_0_iff)
  then show ?thesis using assms
    by (simp add: calculate_metrics_def Let_def int_truediv_def float_truediv_def)
qed

text \<open>The calculator always returns a result.\<close>

lemma calculate_metrics_total: "\<exists>m. calculate_metrics rita gemini = Inr m"
proof (cases "rita \<noteq> [] \<and> gemini \<noteq> []")
  case True
  then show ?thesis using calculate_metrics_general[of rita gemini] by (simp add: Let_def)
next
  case False
  then show ?thesis by (auto simp: calculate_metrics_def)
qed

text \<open>
  Claim C1. The calculator follows the policy table: two empty lists give recall,
  precision and F1 of 1 and counts of 0; an empty reference with a non-empty candidate
  gives metrics 0, tp = fn = 0 and fp = the length of the candidate list (so
  \<open>compare([], [x])\<close> has fp = 1); a non-empty reference with an empty candidate gives
  metrics 0, tp = fp = 0 and fn = the length of the reference list; otherwise both lists
  are lower-cased into sets and tp, fn, fp are the sizes of the intersection and of the two
  differences, recall = tp/|ref|, precision = tp/|cand|, and F1 is 0 when
  recall + precision = 0 and the harmonic mean otherwise.
\<close>

theorem calculate_metrics_policy:
  "calculate_metrics [] [] =
     Inr \<lparr>recall = 1, precision = 1, f1 = 1, tp = 0, fn = 0, fp = 0, details = ''Both empty''\<rparr> \<and>
   (gemini \<noteq> [] \<longrightarrow> calculate_metrics [] gemini =
     Inr \<lparr>recall = 0, precision = 0, f1 = 0, tp = 0, fn = 0, fp = int (length gemini),
          details = ''Rita has no aspects''\<rparr>) \<and>
   calculate_metrics [] [x] =
     Inr \<lparr>recall = 0, precision = 0, f1 = 0, tp = 0, fn = 0, fp = 1,
          details = ''Rita has no aspects''\<rparr> \<and>
   (rita \<noteq> [] \<longrightarrow> calculate_metrics rita [] =
     Inr \<lparr>recall = 0, precision = 0, f1 = 0, tp = 0, fn = int (length rita), fp = 0,
          details = ''Gemini found no aspects''\<rparr>) \<and>
   (rita \<noteq> [] \<and> gemini \<noteq> [] \<longrightarrow>
     (\<exists>m. calculate_metrics rita gemini = Inr m \<and>
          tp m = int (card (set (map py_lower rita) \<inter> set (map py_lower gemini))) \<and>
          fn m = int (card (set (map py_lower rita) - set (map py_lower gemini))) \<and>
          fp m = int (card (set (map py_lower gemini) - set (map py_lower rita))) \<and>
          recall m = of_int (tp m) / of_nat (card (set (map py_lower rita))) \<and>
          precision m = of_int (tp m) / of_nat (card (set (map py_lower gemini))) \<and>
          f1 m = (if recall m + precision m = 0 then 0
                  else 2 * recall m * precision m / (recall m + precision m))))"
proof -
  have general: "\<exists>m. calculate_metrics rita gemini = Inr m \<and>
          tp m = int (card (set (map py_lower rita) \<inter> set (map py_lower gemini))) \<and>
          fn m = int (card (set (map py_lower rita) - set (map py_lower gemini))) \<and>
          fp m = int (card (set (map py_lower gemini) - set (map py_lower rita))) \<and>
          recall m = of_int (tp m) / of_nat (card (set (map py_lower rita))) \<and>
          precision m = of_int (tp m) / of_nat (card (set (map py_lower gemini))) \<and>
          f1 m = (if recall m + precision m = 0 then 0
                  else 2 * recall m * precision m / (recall m + precision m))"
    if ne: "rita \<noteq> []" "gemini \<noteq> []"
  proof -
    let ?R = "set (map py_lower rita)" and ?C = "set (map py_lower gemini)"
    let ?r = "of_int (int (card (?R \<inter> ?C))) / of_int (int (card ?R)) :: rat"
    let ?p = "of_int (int (card (?R \<inter> ?C))) / of_int (int (card ?C)) :: rat"
    have "0 \<le> ?r" "0 \<le> ?p" by simp_all
    then have "?r + ?p > 0 \<longleftrightarrow> ?r + ?p \<noteq> 0" by linarith
    then show ?thesis
      unfolding calculate_metrics_general[OF ne] Let_def by (simp add: mult.assoc)
  qed
  show ?thesis
    using general by (simp add: calculate_metrics_def)
qed

theorem calculate_metrics_policy_witness:
  "[''Comfort'', ''Value/Price''] \<noteq> [] \<and> [''Comfort'', ''Durability''] \<noteq> [] \<and>
   calculate_metrics [] [''Comfort'', ''Value/Price''] =
     Inr \<lparr>recall = 0, precision = 0, f1 = 0, tp = 0, fn = 0, fp = 2,
          details = ''Rita has no aspects''\<rparr> \<and>
   calculate_metrics [] [''X''] =
     Inr \<lparr>recall = 0, precision = 0, f1 = 0, tp = 0, fn = 0, fp = 1,
          details = ''Rita has no aspects''\<rparr> \<and>
   calculate_metrics [''Comfort'', ''Durability''] [] =
     Inr \<lparr>recall = 0, precision = 0, f1 = 0, tp = 0, fn = 2, fp = 0,
          details = ''Gemini found no aspects''\<rparr> \<and>
   calculate_metrics [''Comfort'', ''Durability''] [''Comfort'', ''Value/Price''] =
     Inr \<lparr>recall = 1 / 2, precision = 1 / 2, f1 = 1 / 2, tp = 1, fn = 1, fp = 1,
          details = ''Matched: comfort | Missed: durability | Extra: value/price''\<rparr>"
proof -
  have e: "calculate_metrics [''Comfort'', ''Durability''] [''Comfort'', ''Value/Price''] =
     Inr \<lparr>recall = 1 / 2, precision = 1 / 2, f1 = 1 / 2, tp = 1, fn = 1, fp = 1,
          details = ''Matched: comfort | Missed: durability | Extra: value/price''\<rparr>"
    by code_simp
  from calculate_metrics_policy
         [where rita = "[''Comfort'', ''Durability'']" and gemini = "[''Comfort'', ''Value/Price'']"
            and x = "''X''"]
  show ?thesis using e by simp
qed

text \<open>
  Claim C2, as amended. tp + fn is the size of the lower-cased reference set and tp + fp the
  size of the lower-cased candidate set whenever both lists are non-empty or both are
  empty. When exactly one list is empty, the count reported for the other side is the
  length of that list, duplicates and case variants included, and the count of the empty
  side is 0.
\<close>

theorem calculate_metrics_count_identity:
  "((rita = [] \<longleftrightarrow> gemini = []) \<longrightarrow>
      (\<exists>m. calculate_metrics rita gemini = Inr m \<and>
           tp m + fn m = int (card (set (map py_lower rita))) \<and>
           tp m + fp m = int (card (set (map py_lower gemini))))) \<and>
   (g \<noteq> [] \<longrightarrow>
      (\<exists>m. calculate_metrics [] g = Inr m \<and> tp m + fn m = 0 \<and> tp m + fp m = int (length g))) \<and>
   (r \<noteq> [] \<longrightarrow>
      (\<exists>m. calculate_metrics r [] = Inr m \<and> tp m + fn m = int (length r) \<and> tp m + fp m = 0))"
proof -
  have "\<exists>m. calculate_metrics rita gemini = Inr m \<and>
           tp m + fn m = int (card (set (map py_lower rita))) \<and>
           tp m + fp m = int (card (set (map py_lower gemini)))"
    if both: "rita = [] \<longleftrightarrow> gemini = []"
  proof (cases "rita = []")
    case True
    with both show ?thesis by (simp add: calculate_metrics_def)
  next
    case False
    with both have ne: "rita \<noteq> []" "gemini \<noteq> []" by simp_all
    let ?R = "set (map py_lower rita)" and ?C = "set (map py_lower gemini)"
    have "?R = (?R \<inter> ?C) \<union> (?R - ?C)" "?C = (?R \<inter> ?C) \<union> (?C - ?R)" by auto
    then have "card ?R = card ((?R \<inter> ?C) \<union> (?R - ?C))" "card ?C = card ((?R \<inter> ?C) \<union> (?C - ?R))"
      by simp_all
    moreover have "card ((?R \<inter> ?C) \<union> (?R - ?C)) = card (?R \<inter> ?C) + card (?R - ?C)"
      by (rule card_Un_disjoint) auto
    moreover have "card ((?R \<inter> ?C) \<union> (?C - ?R)) = card (?R \<inter> ?C) + card (?C - ?R)"
      by (rule card_Un_disjoint) auto
    ultimately have "card (?R \<inter> ?C) + card (?R - ?C) = card ?R"
      "card (?R \<inter> ?C) + card (?C - ?R) = card ?C" by simp_all
    then show ?thesis
      unfolding calculate_metrics_general[OF ne] Let_def
      by (simp flip: of_nat_add)
  qed
  then show ?thesis by (simp add: calculate_metrics_def)
qed

theorem calculate_metrics_count_identity_witness:
  "([''Comfort'', ''comfort'', ''Durability''] = [] \<longleftrightarrow> [''COMFORT'', ''Value/Price'', ''Value/Price''] = []) \<and>
   calculate_metrics [''Comfort'', ''comfort'', ''Durability''] [''COMFORT'', ''Value/Price'', ''Value/Price''] =
     Inr \<lparr>recall = 1 / 2, precision = 1 / 2, f1 = 1 / 2, tp = 1, fn = 1, fp = 1,
          details = ''Matched: comfort | Missed: durability | Extra: value/price''\<rparr> \<and>
   int (card (set (map py_lower [''Comfort'', ''comfort'', ''Durability'']))) = 2 \<and>
   int (card (set (map py_lower [''COMFORT'', ''Value/Price'', ''Value/Price'']))) = 2 \<and>
   [''Comfort'', ''Comfort''] \<noteq> [] \<and>
   calculate_metrics [] [''Comfort'', ''Comfort''] =
     Inr \<lparr>recall = 0, precision = 0, f1 = 0, tp = 0, fn = 0, fp = 2,
          details = ''Rita has no aspects''\<rparr> \<and>
   calculate_metrics [''Comfort'', ''Comfort''] [] =
     Inr \<lparr>recall = 0, precision = 0, f1 = 0, tp = 0, fn = 2, fp = 0,
          details = ''Gemini found no aspects''\<rparr>"
proof -
  have e: "calculate_metrics [''Comfort'', ''comfort'', ''Durability''] [''COMFORT'', ''Value/Price'', ''Value/Price''] =
     Inr \<lparr>recall = 1 / 2, precision = 1 / 2, f1 = 1 / 2, tp = 1, fn = 1, fp = 1,
          details = ''Matched: comfort | Missed: durability | Extra: value/price''\<rparr>"
    by code_simp
  have c: "int (card (set (map py_lower [''Comfort'', ''comfort'', ''Durability'']))) = 2"
    "int (card (set (map py_lower [''COMFORT'', ''Value/Price'', ''Value/Price'']))) = 2"
    by code_simp+
  from calculate_metrics_count_identity
         [where rita = "[''Comfort'', ''comfort'', ''Durability'']"
            and gemini = "[''COMFORT'', ''Value/Price'', ''Value/Price'']"
            and g = "[''Comfort'', ''Comfort'']" and r = "[''Comfort'', ''Comfort'']"]
  show ?thesis using e c by (simp add: calculate_metrics_def)
qed

text \<open>
  The identity for all pairs fails: with an empty reference and the candidate list
  \<open>Comfort, Comfort\<close> the calculator reports fp = 2, while the candidate set has one
  element.
\<close>

theorem calculate_metrics_count_identity_counterexample:
  "calculate_metrics [] [''Comfort'', ''Comfort''] =
     Inr \<lparr>recall = 0, precision = 0, f1 = 0, tp = 0, fn = 0, fp = 2,
          details = ''Rita has no aspects''\<rparr> \<and>
   (0::int) + 2 \<noteq> int (card (set (map py_lower [''Comfort'', ''Comfort''])))"
  by (simp add: calculate_metrics_def)



text \<open>
  Claim C9. For every pair of label lists, recall, precision and F1 lie in the closed
  interval from 0 to 1, and tp, fn and fp are non-negative.
\<close>

theorem calculate_metrics_ranges:
  "\<exists>m. calculate_metrics rita gemini = Inr m \<and>
       0 \<le> recall m \<and> recall m \<le> 1 \<and>
       0 \<le> precision m \<and> precision m \<le> 1 \<and>
       0 \<le> f1 m \<and> f1 m \<le> 1 \<and>
       0 \<le> tp m \<and> 0 \<le> fn m \<and> 0 \<le> fp m"
proof (cases "rita \<noteq> [] \<and> gemini \<noteq> []")
  case True
  let ?R = "set (map py_lower rita)" and ?C = "set (map py_lower gemini)"
  let ?r = "of_int (int (card (?R \<inter> ?C))) / of_int (int (card ?R)) :: rat"
  let ?p = "of_int (int (card (?R \<inter> ?C))) / of_int (int (card ?C)) :: rat"
  have r: "0 \<le> ?r \<and> ?r \<le> 1" by (rule card_ratio_bounds) auto
  have p: "0 \<le> ?p \<and> ?p \<le> 1" by (rule card_ratio_bounds) auto
  have f: "0 \<le> (if ?r + ?p > 0 then 2 * (?r * ?p) / (?r + ?p) else 0) \<and>
           (if ?r + ?p > 0 then 2 * (?r * ?p) / (?r + ?p) else 0) \<le> 1"
    using harmonic_le_one[of ?r ?p] r p by (simp del: of_int_of_nat_eq)
  from True have ne: "rita \<noteq> []" "gemini \<noteq> []" by simp_all
  have "calculate_metrics rita gemini =
     Inr \<lparr>recall = ?r, precision = ?p,
             f1 = (if ?r + ?p > 0 then 2 * (?r * ?p) / (?r + ?p) else 0),
             tp = int (card (?R \<inter> ?C)),
             fn = int (card (?R - ?C)),
             fp = int (card (?C - ?R)),
             details = details_str ?R ?C\<rparr>"
    using calculate_metrics_general[OF ne] by (simp only: Let_def)
  with r p f show ?thesis by (simp del: of_int_of_nat_eq)
next
  case False
  then show ?thesis by (auto simp: calculate_metrics_def)
qed

subsection \<open>Audit driver\<close>

text \<open>The main loop appends one row per identifier, in order, and never fails.\<close>

lemma audit_review_ok:
  "\<exists>acc'. audit_review rita_data gemini_data acc k = Inr acc' \<and>
          map Review_ID (results acc') = map Review_ID (results acc) @ [k]"
proof -
  obtain m where "calculate_metrics (get_aspects rita_data k) (get_aspects gemini_data k) = Inr m"
    using calculate_metrics_total by blast
  then show ?thesis by (simp add: audit_review_def Let_def)
qed

lemma audit_loop_ok:
  "\<exists>acc'. audit_loop rita_data gemini_data ks acc = Inr acc' \<and>
          map Review_ID (results acc') = map Review_ID (results acc) @ ks"
proof (induction ks arbitrary: acc)
  case Nil
  then show ?case by simp
next
  case (Cons k ks)
  obtain acc1 where 1: "audit_review rita_data gemini_data acc k = Inr acc1"
    "map Review_ID (results acc1) = map Review_ID (results acc) @ [k]"
    using audit_review_ok by blast
  obtain acc2 where 2: "audit_loop rita_data gemini_data ks acc1 = Inr acc2"
    "map Review_ID (results acc2) = map Review_ID (results acc1) @ ks"
    using Cons.IH by blast
  from 1 2 show ?case by simp
qed

lemma run_audit_ok:
  "\<exists>rep. run_audit rita_csv gemini_csv = Inr rep \<and>
     map Review_ID (result_rows rep) =
       sorted_list_of_set (fst ` set (load_rita_aspects rita_csv) \<union>
                           fst ` set (load_gemini_aspects gemini_csv)) \<and>
     artifact rep = write_results (result_rows rep) \<and>
     verdict rep = decide (micro_f1 (summary rep)) \<and>
     worst rep = (case verdict rep of GREEN_LIGHT \<Rightarrow> [] | RED_FLAG \<Rightarrow> worst_cases (result_rows rep)) \<and>
     micro_f1 (summary rep) =
       (if micro_recall (summary rep) + micro_precision (summary rep) > 0
        then 2 * (micro_recall (summary rep) * micro_precision (summary rep)) /
             (micro_recall (summary rep) + micro_precision (summary rep))
        else 0) \<and>
     micro_recall (summary rep) =
       (if sum_tp (summary rep) + sum_fn (summary rep) > 0
        then of_int (sum_tp (summary rep)) / of_int (sum_tp (summary rep) + sum_fn (summary rep)) * 100
        else 0) \<and>
     micro_precision (summary rep) =
       (if sum_tp (summary rep) + sum_fp (summary rep) > 0
        then of_int (sum_tp (summary rep)) / of_int (sum_tp (summary rep) + sum_fp (summary rep)) * 100
        else 0)"
proof -
  let ?ids = "sorted_list_of_set (set (map fst (load_rita_aspects rita_csv)) \<union>
                                  set (map fst (load_gemini_aspects gemini_csv)))"
  obtain acc where acc:
    "audit_loop (load_rita_aspects rita_csv) (load_gemini_aspects gemini_csv) ?ids
       \<lparr>results = [], total_recall = 0, total_precision = 0, total_f1 = 0,
        total_tp = 0, total_fn = 0, total_fp = 0\<rparr> = Inr acc"
    "map Review_ID (results acc) = ?ids"
    using audit_loop_ok[of "load_rita_aspects rita_csv" "load_gemini_aspects gemini_csv" ?ids
        "\<lparr>results = [], total_recall = 0, total_precision = 0, total_f1 = 0,
          total_tp = 0, total_fn = 0, total_fp = 0\<rparr>"]
    by auto
  define R where "R = (if total_tp acc + total_fn acc > 0
      then of_int (total_tp acc) / of_int (total_tp acc + total_fn acc) * 100 else (0::rat))"
  define P where "P = (if total_tp acc + total_fp acc > 0
      then of_int (total_tp acc) / of_int (total_tp acc + total_fp acc) * 100 else (0::rat))"
  define F where "F = (if R + P > 0 then 2 * (R * P) / (R + P) else 0)"
  define n where "n = int (length (results acc))"
  define rep where "rep =
    \<lparr>result_rows = results acc,
     artifact = write_results (results acc),
     macro_recall = (if n > 0 then total_recall acc / of_int n * 100 else 0),
     macro_precision = (if n > 0 then total_precision acc / of_int n * 100 else 0),
     verdict = decide F,
     worst = (case decide F of GREEN_LIGHT \<Rightarrow> [] | RED_FLAG \<Rightarrow> worst_cases (results acc)),
     summary = \<lparr>macro_f1 = (if n > 0 then total_f1 acc / of_int n * 100 else 0),
                micro_f1 = F, micro_recall = R, micro_precision = P,
                sum_tp = total_tp acc, sum_fn = total_fn acc, sum_fp = total_fp acc\<rparr>\<rparr>"
  have eq: "run_audit rita_csv gemini_csv = Inr rep"
    by (simp only: run_audit_def Let_def acc(1) sum.case rep_def F_def R_def P_def n_def)
  have sel: "result_rows rep = results acc" "artifact rep = write_results (results acc)"
    "verdict rep = decide F"
    "worst rep = (case decide F of GREEN_LIGHT \<Rightarrow> [] | RED_FLAG \<Rightarrow> worst_cases (results acc))"
    "micro_f1 (summary rep) = F" "micro_recall (summary rep) = R"
    "micro_precision (summary rep) = P" "sum_tp (summary rep) = total_tp acc"
    "sum_fn (summary rep) = total_fn acc" "sum_fp (summary rep) = total_fp acc"
    by (simp_all add: rep_def)
  have ids: "map Review_ID (results acc) =
       sorted_list_of_set (fst ` set (load_rita_aspects rita_csv) \<union>
                           fst ` set (load_gemini_aspects gemini_csv))"
    using acc(2) by (simp only: set_map)
  show ?thesis
    apply (rule exI[of _ rep])
    apply (simp only: eq sel ids simp_thms)
    apply (simp only: F_def R_def P_def simp_thms)
    done
qed







text \<open>
  Claim C8, as amended. For every run that sees at least one review identifier, the
  output file holds the fixed header row followed by exactly one row per identifier of
  the sorted union of the identifiers of both sources, each row with one cell per header
  field. A run that sees no identifier writes nothing to the file, not even the header.
\<close>

theorem run_audit_artifact:
  "(fst ` set (load_rita_aspects rita_csv) \<union> fst ` set (load_gemini_aspects gemini_csv) \<noteq> {} \<longrightarrow>
     (\<exists>rep. run_audit rita_csv gemini_csv = Inr rep \<and>
        artifact rep = fieldnames # map row_cells (result_rows rep) \<and>
        map hd (map row_cells (result_rows rep)) =
          sorted_list_of_set (fst ` set (load_rita_aspects rita_csv) \<union>
                              fst ` set (load_gemini_aspects gemini_csv)) \<and>
        length (result_rows rep) =
          card (fst ` set (load_rita_aspects rita_csv) \<union> fst ` set (load_gemini_aspects gemini_csv)) \<and>
        (\<forall>cells \<in> set (artifact rep). length cells = length fieldnames))) \<and>
   (fst ` set (load_rita_aspects r0) \<union> fst ` set (load_gemini_aspects g0) = {} \<longrightarrow>
     (\<exists>rep. run_audit r0 g0 = Inr rep \<and> artifact rep = []))"
proof -
  have gen: "\<exists>rep. run_audit r g = Inr rep \<and>
       map Review_ID (result_rows rep) =
         sorted_list_of_set (fst ` set (load_rita_aspects r) \<union> fst ` set (load_gemini_aspects g)) \<and>
       artifact rep = write_results (result_rows rep)" for r g
    using run_audit_ok[of r g] by blast
  have cells: "map hd (map row_cells rs) = map Review_ID rs" for rs
    by (simp add: row_cells_def)
  have len: "length (row_cells x) = length fieldnames" for x
    by (simp add: row_cells_def fieldnames_def)
  have 1: "\<exists>rep. run_audit rita_csv gemini_csv = Inr rep \<and>
        artifact rep = fieldnames # map row_cells (result_rows rep) \<and>
        map hd (map row_cells (result_rows rep)) =
          sorted_list_of_set (fst ` set (load_rita_aspects rita_csv) \<union>
                              fst ` set (load_gemini_aspects gemini_csv)) \<and>
        length (result_rows rep) =
          card (fst ` set (load_rita_aspects rita_csv) \<union> fst ` set (load_gemini_aspects gemini_csv)) \<and>
        (\<forall>cells \<in> set (artifact rep). length cells = length fieldnames)"
    if ne: "fst ` set (load_rita_aspects rita_csv) \<union> fst ` set (load_gemini_aspects gemini_csv) \<noteq> {}"
  proof -
    let ?ids = "fst ` set (load_rita_aspects rita_csv) \<union> fst ` set (load_gemini_aspects gemini_csv)"
    obtain rep where rep: "run_audit rita_csv gemini_csv = Inr rep"
      "map Review_ID (result_rows rep) = sorted_list_of_set ?ids"
      "artifact rep = write_results (result_rows rep)"
      using gen by blast
    have fin: "finite ?ids" by simp
    have "length (map Review_ID (result_rows rep)) = card ?ids"
      by (simp only: rep(2) sorted_list_of_set.length_sorted_key_list_of_set)
    then have l: "length (result_rows rep) = card ?ids" by simp
    with ne fin have "result_rows rep \<noteq> []" by auto
    then have a: "artifact rep = fieldnames # map row_cells (result_rows rep)"
      by (simp add: rep(3) write_results_def)
    have c: "\<forall>cells \<in> set (artifact rep). length cells = length fieldnames"
      unfolding a using len by auto
    have h: "map hd (map row_cells (result_rows rep)) = sorted_list_of_set ?ids"
      by (simp only: cells rep(2))
    from rep(1) a h l c show ?thesis by blast
  qed
  have 2: "\<exists>rep. run_audit r0 g0 = Inr rep \<and> artifact rep = []"
    if e: "fst ` set (load_rita_aspects r0) \<union> fst ` set (load_gemini_aspects g0) = {}"
  proof -
    obtain rep where rep: "run_audit r0 g0 = Inr rep"
      "map Review_ID (result_rows rep) =
         sorted_list_of_set (fst ` set (load_rita_aspects r0) \<union> fst ` set (load_gemini_aspects g0))"
      "artifact rep = write_results (result_rows rep)"
      using gen by blast
    from rep(2) e have "result_rows rep = []" by simp
    then show ?thesis using rep by (simp add: write_results_def)
  qed
  from 1 2 show ?thesis by blast
qed

theorem run_audit_artifact_witness:
  "fst ` set (load_rita_aspects [(''B'', ''style''), (''A'', ''Comfort, Durability'')]) \<union>
   fst ` set (load_gemini_aspects [''Review_ID,Aspect\<newline>'', ''A,Comfort,pos\<newline>'',
                                   ''A,Value/Price,neg\<newline>'', ''C,comfort,x\<newline>'']) =
     {''A'', ''B'', ''C''} \<and>
   map_sum id artifact (run_audit [(''B'', ''style''), (''A'', ''Comfort, Durability'')]
     [''Review_ID,Aspect\<newline>'', ''A,Comfort,pos\<newline>'', ''A,Value/Price,neg\<newline>'', ''C,comfort,x\<newline>'']) =
   Inr [fieldnames,
        [''A'', ''Comfort, Durability'', ''2'', ''Comfort, Value/Price'', ''2'', ''1'', ''1'', ''1'',
         ''0.500'', ''0.500'', ''0.500'', ''Matched: comfort | Missed: durability | Extra: value/price''],
        [''B'', ''Color/Aesthetics'', ''1'', ''NONE'', ''0'', ''0'', ''1'', ''0'', ''0.000'', ''0.000'',
         ''0.000'', ''Gemini found no aspects''],
        [''C'', ''NONE'', ''0'', ''Comfort'', ''1'', ''0'', ''0'', ''1'', ''0.000'', ''0.000'', ''0.000'',
         ''Rita has no aspects'']] \<and>
   fst ` set (load_rita_aspects []) \<union> fst ` set (load_gemini_aspects [''Review_ID,Aspect\<newline>'']) = {} \<and>
   map_sum id artifact (run_audit [] [''Review_ID,Aspect\<newline>'']) = Inr []"
proof -
  have i: "fst ` set (load_rita_aspects [(''B'', ''style''), (''A'', ''Comfort, Durability'')]) \<union>
   fst ` set (load_gemini_aspects [''Review_ID,Aspect\<newline>'', ''A,Comfort,pos\<newline>'',
                                   ''A,Value/Price,neg\<newline>'', ''C,comfort,x\<newline>'']) =
     {''A'', ''B'', ''C''}"
    by code_simp
  have a: "map_sum id artifact (run_audit [(''B'', ''style''), (''A'', ''Comfort, Durability'')]
     [''Review_ID,Aspect\<newline>'', ''A,Comfort,pos\<newline>'', ''A,Value/Price,neg\<newline>'', ''C,comfort,x\<newline>'']) =
   Inr [fieldnames,
        [''A'', ''Comfort, Durability'', ''2'', ''Comfort, Value/Price'', ''2'', ''1'', ''1'', ''1'',
         ''0.500'', ''0.500'', ''0.500'', ''Matched: comfort | Missed: durability | Extra: value/price''],
        [''B'', ''Color/Aesthetics'', ''1'', ''NONE'', ''0'', ''0'', ''1'', ''0'', ''0.000'', ''0.000'',
         ''0.000'', ''Gemini found no aspects''],
        [''C'', ''NONE'', ''0'', ''Comfort'', ''1'', ''0'', ''0'', ''1'', ''0.000'', ''0.000'', ''0.000'',
         ''Rita has no aspects'']]"
    by code_simp
  have e: "fst ` set (load_rita_aspects []) \<union> fst ` set (load_gemini_aspects [''Review_ID,Aspect\<newline>'']) = {}"
    by code_simp
  from run_audit_artifact
         [where rita_csv = "[(''B'', ''style''), (''A'', ''Comfort, Durability'')]"
            and gemini_csv = "[''Review_ID,Aspect\<newline>'', ''A,Comfort,pos\<newline>'',
                               ''A,Value/Price,neg\<newline>'', ''C,comfort,x\<newline>'']"
            and ?r0.0 = "[]" and ?g0.0 = "[''Review_ID,Aspect\<newline>'']"]
  have "\<exists>rep. run_audit [] [''Review_ID,Aspect\<newline>''] = Inr rep \<and> artifact rep = []"
    using e by blast
  then have "map_sum id artifact (run_audit [] [''Review_ID,Aspect\<newline>'']) = Inr []"
    by auto
  with i a e show ?thesis by (simp only: simp_thms)
qed

text \<open>
  With both inputs empty the output file is left empty: there is no header row.
\<close>

theorem run_audit_artifact_counterexample:
  "run_audit [] [] =
     Inr \<lparr>result_rows = [], artifact = [], macro_recall = 0, macro_precision = 0,
          verdict = RED_FLAG, worst = [],
          summary = \<lparr>macro_f1 = 0, micro_f1 = 0, micro_recall = 0, micro_precision = 0,
                     sum_tp = 0, sum_fn = 0, sum_fp = 0\<rparr>\<rparr> \<and>
   ([] :: string list list) \<noteq> [fieldnames]"
proof -
  have "run_audit [] [] =
     Inr \<lparr>result_rows = [], artifact = [], macro_recall = 0, macro_precision = 0,
          verdict = RED_FLAG, worst = [],
          summary = \<lparr>macro_f1 = 0, micro_f1 = 0, micro_recall = 0, micro_precision = 0,
                     sum_tp = 0, sum_fn = 0, sum_fp = 0\<rparr>\<rparr>"
    by code_simp
  then show ?thesis by simp
qed

end
